theory Spec2Isabelle
  imports Main
begin

section \<open>Python values, strings and exceptions\<close>

text \<open>
  A Python \<open>str\<close> is modelled as a \<^typ>\<open>string\<close> holding its UTF-8 bytes: one byte for a
  code point below 128, a lead byte and one to three continuation bytes (\<open>0x80\<close> to
  \<open>0xBF\<close>) for any other. The three emoji of the status texts of \<open>/test\<close> are written as
  their bytes.
\<close>

definition check_mark :: string where
  "check_mark = [CHR 0xE2, CHR 0x9C, CHR 0x85]"

definition cross_mark :: string where
  "cross_mark = [CHR 0xE2, CHR 0x9D, CHR 0x8C]"

definition warning_sign :: string where
  "warning_sign = [CHR 0xE2, CHR 0x9A, CHR 0xA0, CHR 0xEF, CHR 0xB8, CHR 0x8F]"

text \<open>
  The slice \<open>s[:n]\<close> keeps the first \<open>n\<close> code points of \<open>s\<close>: every byte before the lead
  byte of code point \<open>n + 1\<close>. A continuation byte belongs to the code point before it and
  is not counted.
\<close>

definition is_continuation :: "char \<Rightarrow> bool" where
  "is_continuation c = (let k = (of_char c :: nat) in 128 \<le> k \<and> k < 192)"

fun slice_to :: "nat \<Rightarrow> string \<Rightarrow> string" where
  "slice_to n [] = []"
| "slice_to n (c # cs) =
     (if is_continuation c then c # slice_to n cs
      else (case n of 0 \<Rightarrow> [] | Suc m \<Rightarrow> c # slice_to m cs))"

text \<open>
  \<open>str.strip()\<close> and \<open>str.lower()\<close> are methods of Python's \<open>str\<close>, computed from the
  Unicode character database of the interpreter. The handlers take them as a parameter.
\<close>

record str_methods =
  strip :: "string \<Rightarrow> string"
  lower :: "string \<Rightarrow> string"

text \<open>An exception caught as \<open>Exception\<close>; all the handlers read of it is \<open>str(e)\<close>.\<close>

datatype exn = Exception string

fun str_exn :: "exn \<Rightarrow> string" where
  "str_exn (Exception m) = m"

text \<open>The values a field of an account document or of a JSON response holds.\<close>

datatype val = VNone | VBool bool | VStr string | VObjectId string

fun py_str :: "val \<Rightarrow> string" where
  "py_str VNone = ''None''"
| "py_str (VBool b) = (if b then ''True'' else ''False'')"
| "py_str (VStr s) = s"
| "py_str (VObjectId h) = h"

text \<open>A dict with string keys, as an association list; \<open>d.get(k, default)\<close> and
  \<open>d.get(k)\<close>.\<close>

type_synonym document = "(string \<times> val) list"

definition get_default :: "document \<Rightarrow> string \<Rightarrow> val \<Rightarrow> val" where
  "get_default d k dflt = (case map_of d k of None \<Rightarrow> dflt | Some v \<Rightarrow> v)"

definition get :: "document \<Rightarrow> string \<Rightarrow> val" where
  "get d k = get_default d k VNone"

definition opt_val :: "string option \<Rightarrow> val" where
  "opt_val a = (case a of None \<Rightarrow> VNone | Some s \<Rightarrow> VStr s)"

text \<open>Truth value of \<open>find_one\<close>'s result in \<open>if existing\<close> and \<open>if not doc\<close>:
  \<open>None\<close> and the empty dict are false.\<close>

definition truthy :: "document option \<Rightarrow> bool" where
  "truthy r = (case r of None \<Rightarrow> False | Some d \<Rightarrow> d \<noteq> [])"


section \<open>The password context\<close>

text \<open>
  \<open>pwd_context = CryptContext(schemes=["bcrypt"])\<close> belongs to passlib. It is a parameter
  of the handlers: \<open>hash\<close> draws a salt (its first argument here), \<open>verify\<close> takes the
  password and whatever the document stores as its hash, and both may raise.
\<close>

record pwd_context =
  hash :: "string \<Rightarrow> string \<Rightarrow> exn + string"
  verify :: "string \<Rightarrow> val \<Rightarrow> exn + bool"


section \<open>The database connector\<close>

text \<open>The filters the handlers pass to \<open>find_one\<close>: a field equal to a string, and
  \<open>$or\<close> over a list of filters.\<close>

datatype query = Eq string string | Or "query list"

fun matches :: "query \<Rightarrow> document \<Rightarrow> bool" where
  "matches (Eq k s) d = (map_of d k = Some (VStr s))"
| "matches (Or qs) d = list_ex (\<lambda>q. matches q d) qs"

text \<open>An attribute of an object: absent, a value, or a property whose getter raises.\<close>

datatype 'a attr = Missing | Attr 'a | Raising exn

text \<open>
  Modelled from the spec: the module \<open>database\<close> (\<open>db\<close>, \<open>create_document\<close>) is not
  among the sources. \<open>db\<close> is \<open>None\<close> or a handle to the document store (4.1: "expose a
  null/unavailable handle"). A handle has its collections, each a list of documents in
  insertion order, what \<open>list_collection_names()\<close> answers, its \<open>name\<close> attribute, and
  \<open>fault\<close>: when set, reading and writing a collection raise it ("the store is
  unavailable or the write fails").
\<close>

record db_handle =
  name_attr :: "string attr"
  listing :: "exn + string list"
  fault :: "exn option"
  colls :: "string \<Rightarrow> document list"

definition list_collection_names :: "db_handle \<Rightarrow> exn + string list" where
  "list_collection_names db = listing db"

text \<open>The driver's \<open>db[collection].find_one(filter)\<close> on such a handle (4.1: "returns the
  first matching document or an absence signal").\<close>

definition find_one :: "db_handle \<Rightarrow> string \<Rightarrow> query \<Rightarrow> exn + document option" where
  "find_one db collection q =
     (case fault db of
        Some e \<Rightarrow> Inl e
      | None \<Rightarrow> Inr (find (matches q) (colls db collection)))"

text \<open>
  Modelled from the spec: the module \<open>schemas\<close> is not among the sources. 3 and 4.1 give
  the account record "name, email, password hash, avatar URL, onboarding flag";
  \<open>model_dump\<close> is its document, field by field.
\<close>

record Account =
  name :: string
  email :: string
  password_hash :: string
  avatar_url :: "string option"
  onboarded :: bool

definition model_dump :: "Account \<Rightarrow> document" where
  "model_dump a =
     [(''name'', VStr (Account.name a)),
      (''email'', VStr (Account.email a)),
      (''password_hash'', VStr (Account.password_hash a)),
      (''avatar_url'', opt_val (Account.avatar_url a)),
      (''onboarded'', VBool (Account.onboarded a))]"

text \<open>
  Modelled from the spec: \<open>create_document\<close> is 4.1's \<open>insert_document\<close>: it "serializes
  the given record to the store's native document representation and inserts it; returns
  the store-assigned identifier as a string. Fails with a DatabaseError if the store is
  unavailable or the write fails." The identifier the store assigns is the argument
  \<open>oid\<close>; the stored document carries it as \<open>_id\<close>.
\<close>

definition create_document ::
  "db_handle option \<Rightarrow> string \<Rightarrow> string \<Rightarrow> Account \<Rightarrow> exn + (string \<times> db_handle option)" where
  "create_document dbo oid collection_name data =
     (case dbo of
        None \<Rightarrow> Inl (Exception ''Database not available'')
      | Some db \<Rightarrow>
          (case fault db of
             Some e \<Rightarrow> Inl e
           | None \<Rightarrow>
               let doc = (''_id'', VObjectId oid) # model_dump data
               in Inr (py_str (VObjectId oid),
                       Some (db\<lparr>colls := (colls db)(collection_name := colls db collection_name @ [doc])\<rparr>))))"


section \<open>Handlers\<close>

text \<open>
  A handler ends with its JSON body or with an error: an \<open>HTTPException\<close> it raised
  (status code and detail) or an exception nothing caught. Next to the outcome it gives
  the calls it made to the store and to the password context, in order, and the database
  after it.
\<close>

datatype error = HTTPException nat string | Uncaught exn

datatype event =
    FindOne string query
  | InsertOne string Account
  | Hash string
  | Verify string val

type_synonym 'a run = "(error + 'a) \<times> event list \<times> db_handle option"

definition outcome :: "'a run \<Rightarrow> error + 'a" where
  "outcome r = fst r"

definition events :: "'a run \<Rightarrow> event list" where
  "events r = fst (snd r)"

definition db_after :: "'a run \<Rightarrow> db_handle option" where
  "db_after r = snd (snd r)"

subsection \<open>\<open>GET /test\<close>\<close>

record diagnostics =
  backend :: string
  database :: string
  database_url :: "string option"
  database_name :: "string option"
  connection_status :: string
  collections :: "string list"

text \<open>The inner \<open>try\<close>: the assignments made before a raise stay.\<close>

definition inner_try :: "db_handle \<Rightarrow> diagnostics \<Rightarrow> diagnostics" where
  "inner_try db response =
     (case list_collection_names db of
        Inr cs \<Rightarrow>
          response\<lparr>collections := take 10 cs,
                   database := check_mark @ '' Connected & Working''\<rparr>
      | Inl e \<Rightarrow>
          response\<lparr>database := warning_sign @ ''  Connected but Error: '' @ slice_to 50 (str_exn e)\<rparr>)"

text \<open>The body of the outer \<open>try\<close>: the response as it stands when the body ends, and the
  exception that ended it, if one did.\<close>

definition outer_try :: "db_handle option \<Rightarrow> diagnostics \<Rightarrow> diagnostics \<times> exn option" where
  "outer_try dbo response =
     (case dbo of
        Some db \<Rightarrow>
          (let response = response\<lparr>database := check_mark @ '' Available'',
                                     database_url := Some (check_mark @ '' Configured'')\<rparr>
           in case name_attr db of
                Raising e \<Rightarrow> (response, Some e)
              | Attr n \<Rightarrow>
                  (inner_try db (response\<lparr>database_name := Some n,
                                            connection_status := ''Connected''\<rparr>), None)
              | Missing \<Rightarrow>
                  (inner_try db (response\<lparr>database_name := Some (check_mark @ '' Connected''),
                                            connection_status := ''Connected''\<rparr>), None))
      | None \<Rightarrow>
          (response\<lparr>database := warning_sign @ ''  Available but not initialized''\<rparr>, None))"

text \<open>\<open>os.getenv(k)\<close> in a condition: unset and empty are false.\<close>

definition env_truthy :: "(string \<Rightarrow> string option) \<Rightarrow> string \<Rightarrow> bool" where
  "env_truthy env k = (case env k of None \<Rightarrow> False | Some v \<Rightarrow> v \<noteq> [])"

definition test_database :: "db_handle option \<Rightarrow> (string \<Rightarrow> string option) \<Rightarrow> error + diagnostics" where
  "test_database dbo env =
     (let response = \<lparr>backend = check_mark @ '' Running'',
                      database = cross_mark @ '' Not Available'',
                      database_url = None,
                      database_name = None,
                      connection_status = ''Not Connected'',
                      collections = []\<rparr>;
          response =
            (case outer_try dbo response of
               (response, None) \<Rightarrow> response
             | (response, Some e) \<Rightarrow>
                 response\<lparr>database := cross_mark @ '' Error: '' @ slice_to 50 (str_exn e)\<rparr>);
          response = response\<lparr>database_url :=
            Some (if env_truthy env ''DATABASE_URL'' then check_mark @ '' Set''
                  else cross_mark @ '' Not Set'')\<rparr>;
          response = response\<lparr>database_name :=
            Some (if env_truthy env ''DATABASE_NAME'' then check_mark @ '' Set''
                  else cross_mark @ '' Not Set'')\<rparr>
      in Inr response)"

subsection \<open>\<open>POST /auth/signup\<close>\<close>

record SignupPayload =
  name :: string
  email :: string
  password :: string
  avatar_url :: "string option"

record LoginPayload =
  name :: string
  password :: string

text \<open>\<open>py\<close> gives \<open>str.strip\<close> and \<open>str.lower\<close>, \<open>salt\<close> is the salt \<open>pwd_context.hash\<close>
  draws and \<open>oid\<close> the identifier the store assigns, should the handler get that far.\<close>

definition signup ::
  "str_methods \<Rightarrow> pwd_context \<Rightarrow> string \<Rightarrow> string \<Rightarrow> db_handle option \<Rightarrow> SignupPayload
     \<Rightarrow> document run" where
  "signup py ctx salt oid dbo payload =
     (case dbo of
        None \<Rightarrow> (Inl (HTTPException 500 ''Database not available''), [], dbo)
      | Some db \<Rightarrow>
          (let name = strip py (SignupPayload.name payload);
               email = strip py (lower py (SignupPayload.email payload));
               q = Or [Eq ''email'' email, Eq ''name'' name];
               ev1 = [FindOne ''account'' q]
           in case find_one db ''account'' q of
                Inl e \<Rightarrow> (Inl (Uncaught e), ev1, dbo)
              | Inr existing \<Rightarrow>
                  if truthy existing
                  then (Inl (HTTPException 400 ''Account with this email or name already exists''),
                        ev1, dbo)
                  else
                    (let ev2 = ev1 @ [Hash (SignupPayload.password payload)]
                     in case hash ctx salt (SignupPayload.password payload) of
                          Inl e \<Rightarrow> (Inl (Uncaught e), ev2, dbo)
                        | Inr hashed \<Rightarrow>
                            (let account = \<lparr>Account.name = name,
                                             Account.email = email,
                                             Account.password_hash = hashed,
                                             Account.avatar_url = SignupPayload.avatar_url payload,
                                             Account.onboarded = False\<rparr>;
                                 ev3 = ev2 @ [InsertOne ''account'' account]
                             in case create_document dbo oid ''account'' account of
                                  Inl e \<Rightarrow> (Inl (Uncaught e), ev3, dbo)
                                | Inr (inserted_id, dbo') \<Rightarrow>
                                    (Inr [(''id'', VStr inserted_id),
                                          (''name'', VStr (Account.name account)),
                                          (''email'', VStr (Account.email account)),
                                          (''avatar_url'', opt_val (Account.avatar_url account)),
                                          (''onboarded'', VBool (Account.onboarded account))],
                                     ev3, dbo')))))"

subsection \<open>\<open>POST /auth/login\<close>\<close>

definition login ::
  "str_methods \<Rightarrow> pwd_context \<Rightarrow> db_handle option \<Rightarrow> LoginPayload \<Rightarrow> document run" where
  "login py ctx dbo payload =
     (case dbo of
        None \<Rightarrow> (Inl (HTTPException 500 ''Database not available''), [], dbo)
      | Some db \<Rightarrow>
          (let q = Eq ''name'' (strip py (LoginPayload.name payload));
               ev1 = [FindOne ''account'' q]
           in case find_one db ''account'' q of
                Inl e \<Rightarrow> (Inl (Uncaught e), ev1, dbo)
              | Inr doc \<Rightarrow>
                  if \<not> truthy doc
                  then (Inl (HTTPException 401 ''Invalid name or password''), ev1, dbo)
                  else
                    (let d = the doc;
                         stored = get_default d ''password_hash'' (VStr '''');
                         ev2 = ev1 @ [Verify (LoginPayload.password payload) stored]
                     in case verify ctx (LoginPayload.password payload) stored of
                          Inl e \<Rightarrow> (Inl (Uncaught e), ev2, dbo)
                        | Inr ok \<Rightarrow>
                            if \<not> ok
                            then (Inl (HTTPException 401 ''Invalid name or password''), ev2, dbo)
                            else
                              (Inr [(''id'', VStr (py_str (get d ''_id''))),
                                    (''name'', get d ''name''),
                                    (''email'', get d ''email''),
                                    (''avatar_url'', get d ''avatar_url''),
                                    (''onboarded'', get_default d ''onboarded'' (VBool False))],
                               ev2, dbo))))"


section \<open>Concrete inputs\<close>

text \<open>
  \<open>str.strip()\<close> and \<open>str.lower()\<close> as they act on ASCII text, for the examples, which are
  all ASCII: the whitespace below 128 is tab to carriage return, the four separators
  \<open>0x1C\<close> to \<open>0x1F\<close> and the space, and the letters with a lower case are \<open>A\<close> to \<open>Z\<close>.
\<close>

definition ascii_space :: "char \<Rightarrow> bool" where
  "ascii_space c = (let n = (of_char c :: nat) in (9 \<le> n \<and> n \<le> 13) \<or> (28 \<le> n \<and> n \<le> 32))"

definition ascii_strip :: "string \<Rightarrow> string" where
  "ascii_strip s = rev (dropWhile ascii_space (rev (dropWhile ascii_space s)))"

definition ascii_lower_char :: "char \<Rightarrow> char" where
  "ascii_lower_char c =
     (let n = (of_char c :: nat) in if 65 \<le> n \<and> n \<le> 90 then char_of (n + 32) else c)"

definition ascii_lower :: "string \<Rightarrow> string" where
  "ascii_lower s = map ascii_lower_char s"

definition ascii_str :: str_methods where
  "ascii_str = \<lparr>strip = ascii_strip, lower = ascii_lower\<rparr>"

text \<open>
  A password context to run the handlers on: it stores the password behind the salt and a
  separator, refuses the empty hash as passlib refuses a hash it cannot identify, refuses
  a password with a NUL byte as passlib's bcrypt does, and answers \<open>False\<close> for a hash
  that is not a string.
\<close>

definition toy_context :: pwd_context where
  "toy_context =
     \<lparr>hash = (\<lambda>salt p.
                if CHR 0x00 \<in> set p then Inl (Exception ''NULL bytes are not allowed'')
                else Inr (salt @ ''$'' @ p)),
      verify = (\<lambda>p h. case h of
                  VStr s \<Rightarrow>
                    if s = [] then Inl (Exception ''hash could not be identified'')
                    else if CHR 0x00 \<in> set p then Inl (Exception ''NULL bytes are not allowed'')
                    else Inr (tl (dropWhile (\<lambda>c. c \<noteq> CHR ''$'') s) = p)
                | _ \<Rightarrow> Inr False)\<rparr>"

definition empty_db :: db_handle where
  "empty_db = \<lparr>name_attr = Attr ''appdb'', listing = Inr [], fault = None, colls = (\<lambda>c. [])\<rparr>"

definition alice_payload :: SignupPayload where
  "alice_payload =
     \<lparr>SignupPayload.name = ''alice'', SignupPayload.email = ''Alice@Example.com '',
      SignupPayload.password = ''secret123'', SignupPayload.avatar_url = None\<rparr>"

definition alice_doc :: document where
  "alice_doc =
     [(''_id'', VObjectId ''65a1''), (''name'', VStr ''alice''),
      (''email'', VStr ''alice@example.com''), (''password_hash'', VStr ''s4lt$secret123''),
      (''avatar_url'', VNone), (''onboarded'', VBool False)]"

definition alice_db :: db_handle where
  "alice_db = empty_db\<lparr>colls := (\<lambda>c. [])(''account'' := [alice_doc])\<rparr>"

text \<open>Another name with alice's address, in another case.\<close>

definition bob_payload :: SignupPayload where
  "bob_payload =
     \<lparr>SignupPayload.name = ''bob'', SignupPayload.email = ''ALICE@example.com'',
      SignupPayload.password = ''hunter2'', SignupPayload.avatar_url = None\<rparr>"

text \<open>A store of older documents: carol's has no \<open>password_hash\<close>, dave's no
  \<open>onboarded\<close>, \<open>email\<close> or \<open>avatar_url\<close>.\<close>

definition legacy_db :: db_handle where
  "legacy_db =
     empty_db\<lparr>colls := (\<lambda>c. [])(''account'' :=
       [[(''_id'', VObjectId ''77c3''), (''name'', VStr ''carol'')],
        [(''_id'', VObjectId ''88d4''), (''name'', VStr ''dave''),
         (''password_hash'', VStr ''pepper$pw'')]])\<rparr>"

text \<open>Handles for \<open>GET /test\<close>: twelve collections; a \<open>name\<close> that raises; a listing that
  raises with a message of sixty times the two bytes of \<open>U+00E9\<close>.\<close>

definition many_db :: db_handle where
  "many_db =
     empty_db\<lparr>listing := Inr [''a'', ''b'', ''c'', ''d'', ''e'', ''f'', ''g'', ''h'', ''i'', ''j'',
                               ''k'', ''l'']\<rparr>"

definition nameless_db :: db_handle where
  "nameless_db = empty_db\<lparr>name_attr := Raising (Exception ''no name'')\<rparr>"

definition unlisted_db :: db_handle where
  "unlisted_db =
     empty_db\<lparr>listing := Inl (Exception (concat (replicate 60 [CHR 0xC3, CHR 0xA9])))\<rparr>"

text \<open>Environments: nothing set; only \<open>DATABASE_URL\<close> set; \<open>DATABASE_URL\<close> set to the
  empty string and \<open>DATABASE_NAME\<close> to a name; the two the other way round.\<close>

definition no_env :: "string \<Rightarrow> string option" where
  "no_env k = None"

definition url_only_env :: "string \<Rightarrow> string option" where
  "url_only_env k = (if k = ''DATABASE_URL'' then Some ''mongodb://localhost:27017'' else None)"

definition empty_url_env :: "string \<Rightarrow> string option" where
  "empty_url_env k =
     (if k = ''DATABASE_URL'' then Some ''''
      else if k = ''DATABASE_NAME'' then Some ''appdb'' else None)"

definition empty_name_env :: "string \<Rightarrow> string option" where
  "empty_name_env k =
     (if k = ''DATABASE_URL'' then Some ''mongodb://localhost:27017''
      else if k = ''DATABASE_NAME'' then Some '''' else None)"


section \<open>Properties\<close>

subsection \<open>The string operations\<close>

text \<open>On text without continuation bytes (ASCII) the slice is \<open>take\<close>; on other text it
  counts code points, not bytes.\<close>

lemma slice_to_ascii: "\<forall>c\<in>set s. \<not> is_continuation c \<Longrightarrow> slice_to n s = take n s"
  by (induction s arbitrary: n) (auto split: nat.splits)

lemma slice_to_code_points:
  "slice_to 50 (concat (replicate 60 [CHR 0xC3, CHR 0xA9])) = concat (replicate 50 [CHR 0xC3, CHR 0xA9])"
  by code_simp

lemma slice_to_mixed:
  "slice_to 2 (check_mark @ ''a'' @ [CHR 0xC3, CHR 0xA9] @ ''b'') = check_mark @ ''a''"
  "slice_to 3 (check_mark @ ''a'' @ [CHR 0xC3, CHR 0xA9] @ ''b'') = check_mark @ ''a'' @ [CHR 0xC3, CHR 0xA9]"
  "slice_to 0 (check_mark @ ''a'') = []"
  "slice_to 50 ''no name'' = ''no name''"
  by code_simp+

text \<open>The ASCII instance of \<open>str.strip\<close> and \<open>str.lower\<close>: what it strips, what it keeps,
  what it lowers.\<close>

lemma ascii_space_iff:
  "ascii_space c \<longleftrightarrow> (of_char c :: nat) \<in> {9, 10, 11, 12, 13, 28, 29, 30, 31, 32}"
  unfolding ascii_space_def Let_def by (simp, arith)

lemma ascii_strip_whitespace:
  "ascii_strip ([CHR 0x09, CHR 0x0A, CHR 0x0B, CHR 0x0C, CHR 0x0D, CHR 0x1C, CHR 0x1D, CHR 0x1E,
                 CHR 0x1F, CHR 0x20] @ ''a b'' @
                [CHR 0x20, CHR 0x1F, CHR 0x1E, CHR 0x1D, CHR 0x1C, CHR 0x0D, CHR 0x0C, CHR 0x0B,
                 CHR 0x0A, CHR 0x09]) = ''a b''"
  by code_simp

lemma ascii_strip_keeps:
  "ascii_strip [CHR 0x08, CHR 0x20, CHR 0x0E] = [CHR 0x08, CHR 0x20, CHR 0x0E]"
  "ascii_strip [CHR 0x1B, CHR 0x09, CHR 0x21] = [CHR 0x1B, CHR 0x09, CHR 0x21]"
  "ascii_strip [CHR 0x21, CHR 0x0A, CHR 0x1B] = [CHR 0x21, CHR 0x0A, CHR 0x1B]"
  "ascii_strip [CHR 0x00, CHR 0x7F] = [CHR 0x00, CHR 0x7F]"
  "ascii_strip [CHR 0xC2, CHR 0xA0, CHR ''a''] = [CHR 0xC2, CHR 0xA0, CHR ''a'']"
  by code_simp+

lemma ascii_lower_letters:
  "ascii_lower ''ABCDEFGHIJKLMNOPQRSTUVWXYZ'' = ''abcdefghijklmnopqrstuvwxyz''"
  "ascii_lower ''abcdefghijklmnopqrstuvwxyz'' = ''abcdefghijklmnopqrstuvwxyz''"
  "ascii_lower ''@[`{ 09_-.'' = ''@[`{ 09_-.''"
  by code_simp+

lemma strip_lower_alice:
  "strip ascii_str (lower ascii_str ''Alice@Example.com '') = ''alice@example.com''"
  by code_simp

lemma strip_lower_ALICE:
  "strip ascii_str (lower ascii_str ''ALICE@example.com'') = ''alice@example.com''"
  by code_simp

lemma strip_alice: "strip ascii_str ''alice'' = ''alice''"
  by code_simp

lemma strip_bob: "strip ascii_str ''bob'' = ''bob''"
  by code_simp

lemma strip_carol: "strip ascii_str '' carol'' = ''carol''"
  by code_simp

lemma strip_dave: "strip ascii_str ''dave'' = ''dave''"
  by code_simp

subsection \<open>Auxiliary facts\<close>

lemma find_one_Some_matches: "find_one db c q = Inr (Some d) \<Longrightarrow> matches q d"
  by (auto simp: find_one_def find_Some_iff split: option.splits)

lemma matches_Eq_nonempty: "matches (Eq k s) d \<Longrightarrow> d \<noteq> []"
  by auto

lemma find_snoc:
  "find P (xs @ [x]) = (case find P xs of None \<Rightarrow> if P x then Some x else None | Some y \<Rightarrow> Some y)"
  by (induction xs) auto

lemma login_found:
  assumes "find_one db ''account'' (Eq ''name'' (strip py (LoginPayload.name lp))) = Inr (Some d)"
  shows "login py ctx (Some db) lp =
     (case verify ctx (LoginPayload.password lp) (get_default d ''password_hash'' (VStr [])) of
        Inl e \<Rightarrow>
          (Inl (Uncaught e),
           [FindOne ''account'' (Eq ''name'' (strip py (LoginPayload.name lp))),
            Verify (LoginPayload.password lp) (get_default d ''password_hash'' (VStr []))],
           Some db)
      | Inr ok \<Rightarrow>
          if ok
          then (Inr [(''id'', VStr (py_str (get d ''_id''))),
                     (''name'', get d ''name''),
                     (''email'', get d ''email''),
                     (''avatar_url'', get d ''avatar_url''),
                     (''onboarded'', get_default d ''onboarded'' (VBool False))],
                [FindOne ''account'' (Eq ''name'' (strip py (LoginPayload.name lp))),
                 Verify (LoginPayload.password lp) (get_default d ''password_hash'' (VStr []))],
                Some db)
          else (Inl (HTTPException 401 ''Invalid name or password''),
                [FindOne ''account'' (Eq ''name'' (strip py (LoginPayload.name lp))),
                 Verify (LoginPayload.password lp) (get_default d ''password_hash'' (VStr []))],
                Some db))"
proof -
  have "d \<noteq> []"
    using assms find_one_Some_matches matches_Eq_nonempty by blast
  then have "truthy (Some d)" by (simp add: truthy_def)
  then show ?thesis
    using assms by (simp add: login_def Let_def split: sum.splits)
qed

lemma login_not_found:
  assumes "find_one db ''account'' (Eq ''name'' (strip py (LoginPayload.name lp))) = Inr None"
  shows "login py ctx (Some db) lp =
     (Inl (HTTPException 401 ''Invalid name or password''),
      [FindOne ''account'' (Eq ''name'' (strip py (LoginPayload.name lp)))], Some db)"
  using assms by (simp add: login_def Let_def truthy_def)

lemma signup_success:
  assumes "signup py ctx salt oid dbo payload = (Inr resp, evs, dbo')"
  shows "\<exists>db h. dbo = Some db \<and> fault db = None
      \<and> \<not> truthy (find (matches (Or [Eq ''email'' (strip py (lower py (SignupPayload.email payload))),
                                      Eq ''name'' (strip py (SignupPayload.name payload))]))
                     (colls db ''account''))
      \<and> hash ctx salt (SignupPayload.password payload) = Inr h
      \<and> resp = [(''id'', VStr oid),
                (''name'', VStr (strip py (SignupPayload.name payload))),
                (''email'', VStr (strip py (lower py (SignupPayload.email payload)))),
                (''avatar_url'', opt_val (SignupPayload.avatar_url payload)),
                (''onboarded'', VBool False)]
      \<and> dbo' = Some (db\<lparr>colls := (colls db)(''account'' := colls db ''account'' @
            [[(''_id'', VObjectId oid),
              (''name'', VStr (strip py (SignupPayload.name payload))),
              (''email'', VStr (strip py (lower py (SignupPayload.email payload)))),
              (''password_hash'', VStr h),
              (''avatar_url'', opt_val (SignupPayload.avatar_url payload)),
              (''onboarded'', VBool False)]])\<rparr>)"
  using assms
  by (auto simp: signup_def find_one_def create_document_def model_dump_def Let_def
      split: option.splits sum.splits if_splits)

lemma no_existing:
  assumes "\<not> truthy (find (matches (Or [Eq k1 s1, Eq k2 s2])) ds)"
  shows "find (matches (Eq k1 s1)) ds = None \<and> find (matches (Eq k2 s2)) ds = None"
proof (cases "find (matches (Or [Eq k1 s1, Eq k2 s2])) ds")
  case None
  then show ?thesis by (auto simp: find_None_iff)
next
  case (Some d)
  then have "matches (Or [Eq k1 s1, Eq k2 s2]) d" by (auto simp: find_Some_iff)
  then have "d \<noteq> []" by auto
  with Some assms show ?thesis by (simp add: truthy_def)
qed

lemma signup_alice:
  "signup ascii_str toy_context ''s4lt'' ''65a1'' (Some empty_db) alice_payload =
     (Inr [(''id'', VStr ''65a1''), (''name'', VStr ''alice''),
           (''email'', VStr ''alice@example.com''), (''avatar_url'', VNone),
           (''onboarded'', VBool False)],
      [FindOne ''account'' (Or [Eq ''email'' ''alice@example.com'', Eq ''name'' ''alice'']),
       Hash ''secret123'',
       InsertOne ''account''
         \<lparr>Account.name = ''alice'', Account.email = ''alice@example.com'',
          Account.password_hash = ''s4lt$secret123'', Account.avatar_url = None,
          Account.onboarded = False\<rparr>],
      Some alice_db)"
  by (simp add: signup_def alice_payload_def strip_lower_alice strip_alice find_one_def
      empty_db_def alice_db_def alice_doc_def truthy_def toy_context_def create_document_def
      model_dump_def opt_val_def Let_def)

subsection \<open>Signup, then login\<close>

text \<open>
  C1. When \<open>POST /auth/signup\<close> succeeds for name \<open>n\<close>, email \<open>e\<close> and password \<open>p\<close>, and
  the password context verifies \<open>p\<close> against the hash it made of it, then
  \<open>POST /auth/login\<close> with the same \<open>n\<close> and \<open>p\<close> on the store signup left succeeds with
  the body signup returned: the same \<open>id\<close>, a string, and \<open>name\<close>, \<open>email\<close>,
  \<open>avatar_url\<close> and \<open>onboarded\<close>. Whatever document login finds and verifies, it answers
  \<open>str\<close> of its \<open>_id\<close>, its \<open>name\<close>, \<open>email\<close> and \<open>avatar_url\<close>, and its \<open>onboarded\<close>,
  or \<open>False\<close> when the document has none.
\<close>

theorem login_after_signup:
  assumes "signup py ctx salt oid dbo sp = (Inr resp, evs, dbo')"
    and "hash ctx salt (SignupPayload.password sp) = Inr h"
    and "verify ctx (SignupPayload.password sp) (VStr h) = Inr True"
    and "LoginPayload.name lp = SignupPayload.name sp"
    and "LoginPayload.password lp = SignupPayload.password sp"
  shows "outcome (login py ctx dbo' lp) = Inr resp
     \<and> map_of resp ''id'' = Some (VStr oid)
     \<and> resp = [(''id'', VStr oid),
               (''name'', VStr (strip py (SignupPayload.name sp))),
               (''email'', VStr (strip py (lower py (SignupPayload.email sp)))),
               (''avatar_url'', opt_val (SignupPayload.avatar_url sp)),
               (''onboarded'', VBool False)]
     \<and> (\<forall>db d lp'.
          find_one db ''account'' (Eq ''name'' (strip py (LoginPayload.name lp'))) = Inr (Some d)
          \<and> verify ctx (LoginPayload.password lp') (get_default d ''password_hash'' (VStr []))
              = Inr True
          \<longrightarrow> outcome (login py ctx (Some db) lp')
              = Inr [(''id'', VStr (py_str (get d ''_id''))),
                     (''name'', get d ''name''),
                     (''email'', get d ''email''),
                     (''avatar_url'', get d ''avatar_url''),
                     (''onboarded'',
                      case map_of d ''onboarded'' of None \<Rightarrow> VBool False | Some v \<Rightarrow> v)])"
proof -
  let ?n = "strip py (SignupPayload.name sp)"
  let ?e = "strip py (lower py (SignupPayload.email sp))"
  let ?doc = "[(''_id'', VObjectId oid), (''name'', VStr ?n), (''email'', VStr ?e),
               (''password_hash'', VStr h),
               (''avatar_url'', opt_val (SignupPayload.avatar_url sp)),
               (''onboarded'', VBool False)]"
  from signup_success[OF assms(1)] assms(2)
  obtain db where db: "dbo = Some db" "fault db = None"
    and fresh: "\<not> truthy (find (matches (Or [Eq ''email'' ?e, Eq ''name'' ?n])) (colls db ''account''))"
    and resp: "resp = [(''id'', VStr oid), (''name'', VStr ?n), (''email'', VStr ?e),
                       (''avatar_url'', opt_val (SignupPayload.avatar_url sp)),
                       (''onboarded'', VBool False)]"
    and dbo': "dbo' = Some (db\<lparr>colls := (colls db)(''account'' := colls db ''account'' @ [?doc])\<rparr>)"
    by auto
  let ?db' = "db\<lparr>colls := (colls db)(''account'' := colls db ''account'' @ [?doc])\<rparr>"
  have none: "find (matches (Eq ''name'' ?n)) (colls db ''account'') = None"
    using no_existing[OF fresh] by simp
  have found: "find_one ?db' ''account'' (Eq ''name'' (strip py (LoginPayload.name lp))) = Inr (Some ?doc)"
    using db(2) none assms(4) by (simp add: find_one_def find_snoc)
  have "login py ctx (Some ?db') lp = (Inr resp,
      [FindOne ''account'' (Eq ''name'' (strip py (LoginPayload.name lp))),
       Verify (LoginPayload.password lp) (VStr h)], Some ?db')"
    unfolding login_found[OF found]
    using assms(3,5) resp by (simp add: get_default_def get_def)
  then have round: "outcome (login py ctx dbo' lp) = Inr resp"
    using dbo' by (simp add: outcome_def)
  have general: "outcome (login py ctx (Some db1) lp')
              = Inr [(''id'', VStr (py_str (get d ''_id''))),
                     (''name'', get d ''name''),
                     (''email'', get d ''email''),
                     (''avatar_url'', get d ''avatar_url''),
                     (''onboarded'',
                      case map_of d ''onboarded'' of None \<Rightarrow> VBool False | Some v \<Rightarrow> v)]"
    if "find_one db1 ''account'' (Eq ''name'' (strip py (LoginPayload.name lp'))) = Inr (Some d)"
      and "verify ctx (LoginPayload.password lp') (get_default d ''password_hash'' (VStr [])) = Inr True"
    for db1 d lp'
    unfolding login_found[OF that(1)] using that(2)
    by (simp add: outcome_def get_default_def)
  have id: "map_of resp ''id'' = Some (VStr oid)"
    using resp by simp
  from round id resp general show ?thesis by blast
qed

theorem login_after_signup_witness:
  "signup ascii_str toy_context ''s4lt'' ''65a1'' (Some empty_db) alice_payload
     = (Inr [(''id'', VStr ''65a1''), (''name'', VStr ''alice''),
             (''email'', VStr ''alice@example.com''), (''avatar_url'', VNone),
             (''onboarded'', VBool False)],
        [FindOne ''account'' (Or [Eq ''email'' ''alice@example.com'', Eq ''name'' ''alice'']),
         Hash ''secret123'',
         InsertOne ''account''
           \<lparr>Account.name = ''alice'', Account.email = ''alice@example.com'',
            Account.password_hash = ''s4lt$secret123'', Account.avatar_url = None,
            Account.onboarded = False\<rparr>],
        Some alice_db)
   \<and> outcome (login ascii_str toy_context (Some alice_db)
                \<lparr>LoginPayload.name = ''alice'', LoginPayload.password = ''secret123''\<rparr>)
     = Inr [(''id'', VStr ''65a1''), (''name'', VStr ''alice''),
            (''email'', VStr ''alice@example.com''), (''avatar_url'', VNone),
            (''onboarded'', VBool False)]
   \<and> outcome (login ascii_str toy_context (Some legacy_db)
                \<lparr>LoginPayload.name = ''dave'', LoginPayload.password = ''pw''\<rparr>)
     = Inr [(''id'', VStr ''88d4''), (''name'', VStr ''dave''), (''email'', VNone),
            (''avatar_url'', VNone), (''onboarded'', VBool False)]"
proof -
  note rt = login_after_signup[OF signup_alice, of "''s4lt$secret123''"
      "\<lparr>LoginPayload.name = ''alice'', LoginPayload.password = ''secret123''\<rparr>"]
  have hyps: "hash toy_context ''s4lt'' (SignupPayload.password alice_payload) = Inr ''s4lt$secret123''"
    "verify toy_context (SignupPayload.password alice_payload) (VStr ''s4lt$secret123'') = Inr True"
    by (simp_all add: toy_context_def alice_payload_def)
  have dave: "find_one legacy_db ''account''
        (Eq ''name'' (strip ascii_str (LoginPayload.name
           \<lparr>LoginPayload.name = ''dave'', LoginPayload.password = ''pw''\<rparr>)))
      = Inr (Some [(''_id'', VObjectId ''88d4''), (''name'', VStr ''dave''),
                   (''password_hash'', VStr ''pepper$pw'')])"
    by (simp add: find_one_def legacy_db_def empty_db_def strip_dave)
  have ok: "verify toy_context ''pw''
      (get_default [(''_id'', VObjectId ''88d4''), (''name'', VStr ''dave''),
                    (''password_hash'', VStr ''pepper$pw'')] ''password_hash'' (VStr [])) = Inr True"
    by (simp add: toy_context_def get_default_def)
  from rt[OF hyps] have
    a: "outcome (login ascii_str toy_context (Some alice_db)
                \<lparr>LoginPayload.name = ''alice'', LoginPayload.password = ''secret123''\<rparr>)
        = Inr [(''id'', VStr ''65a1''), (''name'', VStr ''alice''),
            (''email'', VStr ''alice@example.com''), (''avatar_url'', VNone),
            (''onboarded'', VBool False)]"
    and g: "\<And>db d lp'.
          find_one db ''account'' (Eq ''name'' (strip ascii_str (LoginPayload.name lp'))) = Inr (Some d)
          \<Longrightarrow> verify toy_context (LoginPayload.password lp') (get_default d ''password_hash'' (VStr []))
              = Inr True
          \<Longrightarrow> outcome (login ascii_str toy_context (Some db) lp')
              = Inr [(''id'', VStr (py_str (get d ''_id''))),
                     (''name'', get d ''name''),
                     (''email'', get d ''email''),
                     (''avatar_url'', get d ''avatar_url''),
                     (''onboarded'',
                      case map_of d ''onboarded'' of None \<Rightarrow> VBool False | Some v \<Rightarrow> v)]"
    by (simp_all add: alice_payload_def)
  have b: "outcome (login ascii_str toy_context (Some legacy_db)
                \<lparr>LoginPayload.name = ''dave'', LoginPayload.password = ''pw''\<rparr>)
     = Inr [(''id'', VStr ''88d4''), (''name'', VStr ''dave''), (''email'', VNone),
            (''avatar_url'', VNone), (''onboarded'', VBool False)]"
    using g[OF dave] ok by (simp add: get_def get_default_def)
  from signup_alice a b show ?thesis by simp
qed

subsection \<open>No database handle\<close>

text \<open>
  C6, as the code has it. When \<open>db\<close> is \<open>None\<close>, \<open>POST /auth/signup\<close> and
  \<open>POST /auth/login\<close> raise \<open>HTTPException\<close> 500 with the detail
  \<open>Database not available\<close> (no full stop), having called neither the store nor the
  password context, whatever the payload.
\<close>

theorem no_database_fails_first:
  "signup py ctx salt oid None sp = (Inl (HTTPException 500 ''Database not available''), [], None)
   \<and> login py ctx None lp = (Inl (HTTPException 500 ''Database not available''), [], None)"
  by (simp add: signup_def login_def)

text \<open>C6 as stated gives the detail a full stop, \<open>Database not available.\<close>; the
  handlers' detail has none.\<close>

theorem no_database_detail_counterexample:
  "outcome (signup ascii_str toy_context ''s4lt'' ''65a1'' None alice_payload)
     = Inl (HTTPException 500 ''Database not available'')
   \<and> outcome (signup ascii_str toy_context ''s4lt'' ''65a1'' None alice_payload)
     \<noteq> Inl (HTTPException 500 ''Database not available.'')
   \<and> outcome (login ascii_str toy_context None
                \<lparr>LoginPayload.name = ''alice'', LoginPayload.password = ''secret123''\<rparr>)
     \<noteq> Inl (HTTPException 500 ''Database not available.'')"
  by (simp add: outcome_def signup_def login_def)

subsection \<open>\<open>GET /test\<close>\<close>

text \<open>
  C7, as the code has it. \<open>GET /test\<close> returns its diagnostic object in every state.
  \<open>backend\<close> is the running text. \<open>database\<close> says \<open>Available but not initialized\<close>
  without a handle, \<open>Error:\<close> and the first 50 characters of the message when the handle's
  \<open>name\<close> raises, \<open>Connected but Error:\<close> and the first 50 characters of the message
  when \<open>list_collection_names\<close> raises, and \<open>Connected & Working\<close> otherwise.
  \<open>database_url\<close> and \<open>database_name\<close> are flags and never values: \<open>Set\<close> when
  \<open>os.getenv\<close> gives a non-empty string, \<open>Not Set\<close> when the variable is unset or empty.
  \<open>collections\<close> has the first 10 names listed, and none when listing was not reached or
  failed.
\<close>

theorem test_database_never_raises:
  "\<exists>r. test_database dbo env = Inr r
     \<and> backend r = check_mark @ '' Running''
     \<and> database r =
         (case dbo of
            None \<Rightarrow> warning_sign @ ''  Available but not initialized''
          | Some db \<Rightarrow>
              (case name_attr db of
                 Raising e \<Rightarrow> cross_mark @ '' Error: '' @ slice_to 50 (str_exn e)
               | _ \<Rightarrow>
                   (case listing db of
                      Inr cs \<Rightarrow> check_mark @ '' Connected & Working''
                    | Inl e \<Rightarrow>
                        warning_sign @ ''  Connected but Error: '' @ slice_to 50 (str_exn e))))
     \<and> database_url r =
         Some (case env ''DATABASE_URL'' of
                 None \<Rightarrow> cross_mark @ '' Not Set''
               | Some v \<Rightarrow> if v = [] then cross_mark @ '' Not Set'' else check_mark @ '' Set'')
     \<and> database_name r =
         Some (case env ''DATABASE_NAME'' of
                 None \<Rightarrow> cross_mark @ '' Not Set''
               | Some v \<Rightarrow> if v = [] then cross_mark @ '' Not Set'' else check_mark @ '' Set'')
     \<and> connection_status r =
         (case dbo of
            None \<Rightarrow> ''Not Connected''
          | Some db \<Rightarrow>
              (case name_attr db of Raising e \<Rightarrow> ''Not Connected'' | _ \<Rightarrow> ''Connected''))
     \<and> collections r =
         (case dbo of
            None \<Rightarrow> []
          | Some db \<Rightarrow>
              (case name_attr db of
                 Raising e \<Rightarrow> []
               | _ \<Rightarrow> (case listing db of Inr cs \<Rightarrow> take 10 cs | Inl e \<Rightarrow> [])))
     \<and> length (collections r) \<le> 10"
  by (auto simp: test_database_def outer_try_def inner_try_def list_collection_names_def
      env_truthy_def Let_def split: option.splits attr.splits sum.splits)

theorem test_database_never_raises_witness:
  "(\<exists>r. test_database None no_env = Inr r
      \<and> database r = warning_sign @ ''  Available but not initialized''
      \<and> database_url r = Some (cross_mark @ '' Not Set'')
      \<and> connection_status r = ''Not Connected'' \<and> collections r = [])
   \<and> (\<exists>r. test_database (Some nameless_db) url_only_env = Inr r
      \<and> database r = cross_mark @ '' Error: no name''
      \<and> database_url r = Some (check_mark @ '' Set'')
      \<and> database_name r = Some (cross_mark @ '' Not Set'')
      \<and> connection_status r = ''Not Connected'' \<and> collections r = [])
   \<and> (\<exists>r. test_database (Some unlisted_db) url_only_env = Inr r
      \<and> database r = warning_sign @ ''  Connected but Error: ''
                        @ concat (replicate 50 [CHR 0xC3, CHR 0xA9])
      \<and> connection_status r = ''Connected'' \<and> collections r = [])
   \<and> (\<exists>r. test_database (Some many_db) empty_url_env = Inr r
      \<and> database r = check_mark @ '' Connected & Working''
      \<and> database_url r = Some (cross_mark @ '' Not Set'')
      \<and> database_name r = Some (check_mark @ '' Set'')
      \<and> connection_status r = ''Connected''
      \<and> collections r = [''a'', ''b'', ''c'', ''d'', ''e'', ''f'', ''g'', ''h'', ''i'', ''j''])"
proof -
  have m: "slice_to 50 ''no name'' = ''no name''" by code_simp
  have n: "name_attr nameless_db = Raising (Exception ''no name'')"
    by (simp add: nameless_db_def empty_db_def)
  have u: "name_attr unlisted_db = Attr ''appdb''"
    "listing unlisted_db = Inl (Exception (concat (replicate 60 [CHR 0xC3, CHR 0xA9])))"
    by (simp_all add: unlisted_db_def empty_db_def)
  have l: "name_attr many_db = Attr ''appdb''"
    "listing many_db = Inr [''a'', ''b'', ''c'', ''d'', ''e'', ''f'', ''g'', ''h'', ''i'', ''j'',
                            ''k'', ''l'']"
    by (simp_all add: many_db_def empty_db_def)
  have a: "\<exists>r. test_database None no_env = Inr r
      \<and> database r = warning_sign @ ''  Available but not initialized''
      \<and> database_url r = Some (cross_mark @ '' Not Set'')
      \<and> connection_status r = ''Not Connected'' \<and> collections r = []"
    using test_database_never_raises[of None no_env] by (auto simp: no_env_def)
  have b: "\<exists>r. test_database (Some nameless_db) url_only_env = Inr r
      \<and> database r = cross_mark @ '' Error: no name''
      \<and> database_url r = Some (check_mark @ '' Set'')
      \<and> database_name r = Some (cross_mark @ '' Not Set'')
      \<and> connection_status r = ''Not Connected'' \<and> collections r = []"
    using test_database_never_raises[of "Some nameless_db" url_only_env]
    by (auto simp: n m url_only_env_def)
  have c: "\<exists>r. test_database (Some unlisted_db) url_only_env = Inr r
      \<and> database r = warning_sign @ ''  Connected but Error: ''
                        @ concat (replicate 50 [CHR 0xC3, CHR 0xA9])
      \<and> connection_status r = ''Connected'' \<and> collections r = []"
    using test_database_never_raises[of "Some unlisted_db" url_only_env]
    by (auto simp: u slice_to_code_points)
  have d: "\<exists>r. test_database (Some many_db) empty_url_env = Inr r
      \<and> database r = check_mark @ '' Connected & Working''
      \<and> database_url r = Some (cross_mark @ '' Not Set'')
      \<and> database_name r = Some (check_mark @ '' Set'')
      \<and> connection_status r = ''Connected''
      \<and> collections r = [''a'', ''b'', ''c'', ''d'', ''e'', ''f'', ''g'', ''h'', ''i'', ''j'']"
    using test_database_never_raises[of "Some many_db" empty_url_env]
    by (auto simp: l empty_url_env_def)
  from a b c d show ?thesis by blast
qed

text \<open>
  C7 as stated has the flags report whether the variables are set. \<open>DATABASE_NAME\<close>
  set to the empty string is reported \<open>Not Set\<close>, as it is when it is unset.
\<close>

theorem test_database_empty_variable_counterexample:
  "empty_name_env ''DATABASE_NAME'' = Some ''''
   \<and> (\<exists>r. test_database (Some empty_db) empty_name_env = Inr r
        \<and> database_url r = Some (check_mark @ '' Set'')
        \<and> database_name r = Some (cross_mark @ '' Not Set''))
   \<and> (\<exists>r. test_database (Some empty_db) url_only_env = Inr r
        \<and> database_name r = Some (cross_mark @ '' Not Set''))
   \<and> empty_name_env ''DATABASE_NAME'' \<noteq> url_only_env ''DATABASE_NAME''
   \<and> url_only_env ''DATABASE_NAME'' = None"
  by (simp add: test_database_def outer_try_def inner_try_def list_collection_names_def
      env_truthy_def empty_name_env_def url_only_env_def empty_db_def Let_def)

text \<open>
  C10, as the code has it. The \<open>database_url\<close> and \<open>database_name\<close> that \<open>GET /test\<close>
  returns are decided by \<open>DATABASE_URL\<close> and \<open>DATABASE_NAME\<close> alone, whatever the handle:
  \<open>Set\<close> when the variable has a non-empty value, \<open>Not Set\<close> when it is unset or empty.
  The values the \<open>try\<close> block had put there from the connection (\<open>Configured\<close>, the
  database's name) are overwritten.
\<close>

theorem test_database_env_flags:
  "\<exists>r. test_database dbo env = Inr r
     \<and> database_url r =
         Some (case env ''DATABASE_URL'' of
                 None \<Rightarrow> cross_mark @ '' Not Set''
               | Some v \<Rightarrow> if v = [] then cross_mark @ '' Not Set'' else check_mark @ '' Set'')
     \<and> database_name r =
         Some (case env ''DATABASE_NAME'' of
                 None \<Rightarrow> cross_mark @ '' Not Set''
               | Some v \<Rightarrow> if v = [] then cross_mark @ '' Not Set'' else check_mark @ '' Set'')
     \<and> database_url (fst (outer_try (Some db) r0)) = Some (check_mark @ '' Configured'')
     \<and> database_name (fst (outer_try (Some (db\<lparr>name_attr := Attr n\<rparr>)) r0)) = Some n"
  by (auto simp: test_database_def outer_try_def inner_try_def list_collection_names_def
      env_truthy_def Let_def split: option.splits attr.splits sum.splits)

theorem test_database_env_flags_witness:
  "(\<exists>r. test_database (Some empty_db) empty_url_env = Inr r
      \<and> database_url r = Some (cross_mark @ '' Not Set'')
      \<and> database_name r = Some (check_mark @ '' Set''))
   \<and> (\<exists>r. test_database None empty_name_env = Inr r
      \<and> database_url r = Some (check_mark @ '' Set'')
      \<and> database_name r = Some (cross_mark @ '' Not Set''))
   \<and> (\<exists>r. test_database (Some empty_db) no_env = Inr r
      \<and> database_url r = Some (cross_mark @ '' Not Set'')
      \<and> database_name r = Some (cross_mark @ '' Not Set''))
   \<and> database_url (fst (outer_try (Some empty_db) \<lparr>backend = [], database = [],
         database_url = None, database_name = None, connection_status = [],
         collections = []\<rparr>)) = Some (check_mark @ '' Configured'')
   \<and> database_name (fst (outer_try (Some empty_db) \<lparr>backend = [], database = [],
         database_url = None, database_name = None, connection_status = [],
         collections = []\<rparr>)) = Some ''appdb''"
proof -
  let ?r0 = "\<lparr>backend = [], database = [], database_url = None, database_name = None,
              connection_status = [], collections = []\<rparr>"
  have e: "empty_db\<lparr>name_attr := Attr ''appdb''\<rparr> = empty_db"
    by (simp add: empty_db_def)
  have a: "\<exists>r. test_database (Some empty_db) empty_url_env = Inr r
      \<and> database_url r = Some (cross_mark @ '' Not Set'')
      \<and> database_name r = Some (check_mark @ '' Set'')"
    using test_database_env_flags[of "Some empty_db" empty_url_env empty_db ?r0 "''appdb''"]
    by (auto simp: empty_url_env_def)
  have b: "\<exists>r. test_database None empty_name_env = Inr r
      \<and> database_url r = Some (check_mark @ '' Set'')
      \<and> database_name r = Some (cross_mark @ '' Not Set'')"
    using test_database_env_flags[of None empty_name_env empty_db ?r0 "''appdb''"]
    by (auto simp: empty_name_env_def)
  have c: "\<exists>r. test_database (Some empty_db) no_env = Inr r
      \<and> database_url r = Some (cross_mark @ '' Not Set'')
      \<and> database_name r = Some (cross_mark @ '' Not Set'')"
    using test_database_env_flags[of "Some empty_db" no_env empty_db ?r0 "''appdb''"]
    by (auto simp: no_env_def)
  have d: "database_url (fst (outer_try (Some empty_db) ?r0)) = Some (check_mark @ '' Configured'')
      \<and> database_name (fst (outer_try (Some empty_db) ?r0)) = Some ''appdb''"
    using test_database_env_flags[of "Some empty_db" no_env empty_db ?r0 "''appdb''"]
    by (auto simp: e)
  from a b c d show ?thesis by blast
qed

text \<open>
  C10 as stated has the two fields decided by whether the variables are set.
  \<open>DATABASE_URL\<close> is set in both of these environments, to the empty string in one, and
  the field differs.
\<close>

theorem test_database_flag_counterexample:
  "empty_url_env ''DATABASE_URL'' \<noteq> None
   \<and> url_only_env ''DATABASE_URL'' \<noteq> None
   \<and> (\<exists>r. test_database (Some empty_db) empty_url_env = Inr r
        \<and> database_url r = Some (cross_mark @ '' Not Set''))
   \<and> (\<exists>r. test_database (Some empty_db) url_only_env = Inr r
        \<and> database_url r = Some (check_mark @ '' Set''))
   \<and> cross_mark @ '' Not Set'' \<noteq> check_mark @ '' Set''"
  by (simp add: test_database_def outer_try_def inner_try_def list_collection_names_def
      env_truthy_def empty_url_env_def url_only_env_def empty_db_def Let_def
      cross_mark_def check_mark_def)

subsection \<open>What signup returns and stores\<close>

text \<open>
  C2. The body of a successful \<open>POST /auth/signup\<close> has exactly the fields \<open>id\<close>,
  \<open>name\<close>, \<open>email\<close>, \<open>avatar_url\<close> and \<open>onboarded\<close>, in this order, with \<open>onboarded\<close>
  false. It has no \<open>password_hash\<close> and no \<open>password\<close> field, and its values are the
  identifier, the trimmed name, the lowercased and trimmed address, the avatar and
  \<open>False\<close>: none is made from the password or its hash.
\<close>

theorem signup_response_fields:
  assumes "signup py ctx salt oid dbo sp = (Inr resp, evs, dbo')"
  shows "map fst resp = [''id'', ''name'', ''email'', ''avatar_url'', ''onboarded'']
     \<and> map_of resp ''onboarded'' = Some (VBool False)
     \<and> map_of resp ''password_hash'' = None
     \<and> map_of resp ''password'' = None
     \<and> map snd resp = [VStr oid,
                        VStr (strip py (SignupPayload.name sp)),
                        VStr (strip py (lower py (SignupPayload.email sp))),
                        opt_val (SignupPayload.avatar_url sp),
                        VBool False]"
  using signup_success[OF assms] by auto

theorem signup_response_fields_witness:
  "map fst [(''id'', VStr ''65a1''), (''name'', VStr ''alice''),
            (''email'', VStr ''alice@example.com''), (''avatar_url'', VNone),
            (''onboarded'', VBool False)]
     = [''id'', ''name'', ''email'', ''avatar_url'', ''onboarded'']
   \<and> map_of [(''id'', VStr ''65a1''), (''name'', VStr ''alice''),
            (''email'', VStr ''alice@example.com''), (''avatar_url'', VNone),
            (''onboarded'', VBool False)] ''password_hash'' = None
   \<and> outcome (signup ascii_str toy_context ''s4lt'' ''65a1'' (Some empty_db) alice_payload)
     = Inr [(''id'', VStr ''65a1''), (''name'', VStr ''alice''),
            (''email'', VStr ''alice@example.com''), (''avatar_url'', VNone),
            (''onboarded'', VBool False)]"
  using signup_response_fields[OF signup_alice] signup_alice
  by (simp add: outcome_def)

text \<open>
  C4. \<open>POST /auth/signup\<close> looks up, and when it succeeds returns and stores in the
  document it appends to the account collection, the address put through \<open>str.lower\<close>
  and then \<open>str.strip\<close>, and the name put through \<open>str.strip\<close>, whatever the input.
  \<open>Alice@Example.com\<close> followed by a space is stored and returned as
  \<open>alice@example.com\<close>.
\<close>

theorem signup_normalizes:
  "(\<forall>db. dbo = Some db \<longrightarrow>
       take 1 (events (signup py ctx salt oid dbo sp))
         = [FindOne ''account''
              (Or [Eq ''email'' (strip py (lower py (SignupPayload.email sp))),
                   Eq ''name'' (strip py (SignupPayload.name sp))])])
   \<and> (\<forall>resp. outcome (signup py ctx salt oid dbo sp) = Inr resp \<longrightarrow>
         map_of resp ''email'' = Some (VStr (strip py (lower py (SignupPayload.email sp))))
       \<and> map_of resp ''name'' = Some (VStr (strip py (SignupPayload.name sp)))
       \<and> (\<exists>db db' stored.
             dbo = Some db \<and> db_after (signup py ctx salt oid dbo sp) = Some db'
           \<and> colls db' ''account'' = colls db ''account'' @ [stored]
           \<and> map_of stored ''email''
               = Some (VStr (strip py (lower py (SignupPayload.email sp))))
           \<and> map_of stored ''name'' = Some (VStr (strip py (SignupPayload.name sp)))))"
proof (intro conjI allI impI)
  fix db assume "dbo = Some db"
  then show "take 1 (events (signup py ctx salt oid dbo sp))
         = [FindOne ''account''
              (Or [Eq ''email'' (strip py (lower py (SignupPayload.email sp))),
                   Eq ''name'' (strip py (SignupPayload.name sp))])]"
    by (auto simp: signup_def events_def Let_def split: sum.splits prod.splits)
next
  fix resp assume ok: "outcome (signup py ctx salt oid dbo sp) = Inr resp"
  obtain evs dbo' where r: "signup py ctx salt oid dbo sp = (Inr resp, evs, dbo')"
    using ok by (cases "signup py ctx salt oid dbo sp") (auto simp: outcome_def)
  from signup_success[OF r] obtain db h where
    facts: "dbo = Some db"
    "resp = [(''id'', VStr oid),
                (''name'', VStr (strip py (SignupPayload.name sp))),
                (''email'', VStr (strip py (lower py (SignupPayload.email sp)))),
                (''avatar_url'', opt_val (SignupPayload.avatar_url sp)),
                (''onboarded'', VBool False)]"
    "dbo' = Some (db\<lparr>colls := (colls db)(''account'' := colls db ''account'' @
            [[(''_id'', VObjectId oid),
              (''name'', VStr (strip py (SignupPayload.name sp))),
              (''email'', VStr (strip py (lower py (SignupPayload.email sp)))),
              (''password_hash'', VStr h),
              (''avatar_url'', opt_val (SignupPayload.avatar_url sp)),
              (''onboarded'', VBool False)]])\<rparr>)"
    by blast
  show "map_of resp ''email'' = Some (VStr (strip py (lower py (SignupPayload.email sp))))"
    using facts(2) by simp
  show "map_of resp ''name'' = Some (VStr (strip py (SignupPayload.name sp)))"
    using facts(2) by simp
  show "\<exists>db db' stored.
             dbo = Some db \<and> db_after (signup py ctx salt oid dbo sp) = Some db'
           \<and> colls db' ''account'' = colls db ''account'' @ [stored]
           \<and> map_of stored ''email''
               = Some (VStr (strip py (lower py (SignupPayload.email sp))))
           \<and> map_of stored ''name'' = Some (VStr (strip py (SignupPayload.name sp)))"
    using facts(1,3) r by (simp add: db_after_def)
qed

theorem signup_normalizes_witness:
  "strip ascii_str (lower ascii_str ''Alice@Example.com '') = ''alice@example.com''
   \<and> take 1 (events (signup ascii_str toy_context ''s4lt'' ''65a1'' (Some empty_db) alice_payload))
     = [FindOne ''account'' (Or [Eq ''email'' ''alice@example.com'', Eq ''name'' ''alice''])]
   \<and> outcome (signup ascii_str toy_context ''s4lt'' ''65a1'' (Some empty_db) alice_payload)
     = Inr [(''id'', VStr ''65a1''), (''name'', VStr ''alice''),
            (''email'', VStr ''alice@example.com''), (''avatar_url'', VNone),
            (''onboarded'', VBool False)]
   \<and> db_after (signup ascii_str toy_context ''s4lt'' ''65a1'' (Some empty_db) alice_payload)
     = Some alice_db
   \<and> colls alice_db ''account'' = colls empty_db ''account'' @ [alice_doc]
   \<and> map_of alice_doc ''email'' = Some (VStr ''alice@example.com'')
   \<and> map_of alice_doc ''name'' = Some (VStr ''alice'')"
  using signup_normalizes[of "Some empty_db" ascii_str toy_context "''s4lt''" "''65a1''" alice_payload]
    signup_alice
  by (simp add: outcome_def db_after_def events_def strip_lower_alice strip_alice alice_db_def
      alice_doc_def empty_db_def alice_payload_def)

subsection \<open>Signup that fails\<close>

lemma find_Or_truthy:
  assumes "d \<in> set ds" and "matches (Or [Eq k1 s1, Eq k2 s2]) d"
  shows "truthy (find (matches (Or [Eq k1 s1, Eq k2 s2])) ds)"
proof (cases "find (matches (Or [Eq k1 s1, Eq k2 s2])) ds")
  case None
  with assms show ?thesis by (auto simp: find_None_iff)
next
  case (Some d')
  then have "matches (Or [Eq k1 s1, Eq k2 s2]) d'" by (auto simp: find_Some_iff)
  then have "d' \<noteq> []" by auto
  with Some show ?thesis by (simp add: truthy_def)
qed

text \<open>
  C5, as the code has it. When the store answers and the account collection holds a
  document whose \<open>name\<close> is the trimmed name or whose \<open>email\<close> is the lowercased and
  trimmed address, \<open>POST /auth/signup\<close> raises \<open>HTTPException\<close> 400 with the detail
  \<open>Account with this email or name already exists\<close> (no full stop), after its one
  \<open>find_one\<close>, and the store is as it was.
\<close>

theorem signup_duplicate_rejected:
  assumes "fault db = None"
    and "d \<in> set (colls db ''account'')"
    and "map_of d ''name'' = Some (VStr (strip py (SignupPayload.name sp)))
         \<or> map_of d ''email'' = Some (VStr (strip py (lower py (SignupPayload.email sp))))"
  shows "signup py ctx salt oid (Some db) sp =
     (Inl (HTTPException 400 ''Account with this email or name already exists''),
      [FindOne ''account'' (Or [Eq ''email'' (strip py (lower py (SignupPayload.email sp))),
                                 Eq ''name'' (strip py (SignupPayload.name sp))])],
      Some db)"
proof -
  have m: "matches (Or [Eq ''email'' (strip py (lower py (SignupPayload.email sp))),
                     Eq ''name'' (strip py (SignupPayload.name sp))]) d"
    using assms(3) by auto
  from find_Or_truthy[OF assms(2) m] assms(1) show ?thesis
    by (simp add: signup_def find_one_def Let_def)
qed

theorem signup_duplicate_rejected_witness:
  "signup ascii_str toy_context ''pepper'' ''99e5'' (Some alice_db) bob_payload =
     (Inl (HTTPException 400 ''Account with this email or name already exists''),
      [FindOne ''account'' (Or [Eq ''email'' ''alice@example.com'', Eq ''name'' ''bob''])],
      Some alice_db)"
  using signup_duplicate_rejected[of alice_db alice_doc ascii_str bob_payload toy_context "''pepper''" "''99e5''"]
  by (simp add: alice_db_def empty_db_def alice_doc_def bob_payload_def strip_lower_ALICE strip_bob)

text \<open>
  C5 as stated gives the detail a full stop. With alice's document in the store, a
  signup as bob with alice's address in capitals fails with 400, and its detail has no
  full stop.
\<close>

theorem duplicate_detail_counterexample:
  "map_of alice_doc ''email''
     = Some (VStr (strip ascii_str (lower ascii_str (SignupPayload.email bob_payload))))
   \<and> alice_doc \<in> set (colls alice_db ''account'')
   \<and> outcome (signup ascii_str toy_context ''pepper'' ''99e5'' (Some alice_db) bob_payload)
     = Inl (HTTPException 400 ''Account with this email or name already exists'')
   \<and> outcome (signup ascii_str toy_context ''pepper'' ''99e5'' (Some alice_db) bob_payload)
     \<noteq> Inl (HTTPException 400 ''Account with this email or name already exists.'')"
  by (simp add: outcome_def signup_def find_one_def alice_db_def empty_db_def alice_doc_def
      bob_payload_def strip_lower_ALICE strip_bob truthy_def Let_def)

text \<open>
  C8. When \<open>POST /auth/signup\<close> raises an \<open>HTTPException\<close>, it is the 500 of the
  missing handle, raised before any call, or the 400 of an existing document, raised
  after the one \<open>find_one\<close>. Either way the database is as it was, nothing was
  inserted and no password was hashed.
\<close>

theorem signup_failure_changes_nothing:
  assumes "outcome (signup py ctx salt oid dbo sp) = Inl (HTTPException code detail)"
  shows "db_after (signup py ctx salt oid dbo sp) = dbo
     \<and> (\<forall>p. Hash p \<notin> set (events (signup py ctx salt oid dbo sp)))
     \<and> (\<forall>c a. InsertOne c a \<notin> set (events (signup py ctx salt oid dbo sp)))
     \<and> ((code = 500 \<and> detail = ''Database not available'' \<and> dbo = None
           \<and> events (signup py ctx salt oid dbo sp) = [])
        \<or> (code = 400 \<and> detail = ''Account with this email or name already exists''
           \<and> (\<exists>db. dbo = Some db
                \<and> truthy (find (matches
                     (Or [Eq ''email'' (strip py (lower py (SignupPayload.email sp))),
                          Eq ''name'' (strip py (SignupPayload.name sp))]))
                     (colls db ''account'')))
           \<and> events (signup py ctx salt oid dbo sp)
               = [FindOne ''account''
                    (Or [Eq ''email'' (strip py (lower py (SignupPayload.email sp))),
                         Eq ''name'' (strip py (SignupPayload.name sp))])]))"
  using assms
  by (auto simp: signup_def outcome_def events_def db_after_def find_one_def create_document_def
      Let_def split: option.splits sum.splits if_splits)

theorem signup_failure_changes_nothing_witness:
  "outcome (signup ascii_str toy_context ''pepper'' ''99e5'' (Some alice_db) bob_payload)
     = Inl (HTTPException 400 ''Account with this email or name already exists'')
   \<and> db_after (signup ascii_str toy_context ''pepper'' ''99e5'' (Some alice_db) bob_payload) = Some alice_db
   \<and> Hash ''hunter2'' \<notin> set (events (signup ascii_str toy_context ''pepper'' ''99e5'' (Some alice_db) bob_payload))
   \<and> outcome (signup ascii_str toy_context ''pepper'' ''99e5'' None bob_payload)
     = Inl (HTTPException 500 ''Database not available'')
   \<and> db_after (signup ascii_str toy_context ''pepper'' ''99e5'' None bob_payload) = None
   \<and> events (signup ascii_str toy_context ''pepper'' ''99e5'' None bob_payload) = []"
proof -
  have a: "outcome (signup ascii_str toy_context ''pepper'' ''99e5'' (Some alice_db) bob_payload)
     = Inl (HTTPException 400 ''Account with this email or name already exists'')"
    by (simp add: outcome_def signup_def find_one_def alice_db_def empty_db_def alice_doc_def
      bob_payload_def strip_lower_ALICE strip_bob truthy_def Let_def)
  have b: "outcome (signup ascii_str toy_context ''pepper'' ''99e5'' None bob_payload)
     = Inl (HTTPException 500 ''Database not available'')"
    by (simp add: outcome_def signup_def)
  from signup_failure_changes_nothing[OF a] signup_failure_changes_nothing[OF b] a b
  show ?thesis by simp
qed

subsection \<open>Login that fails\<close>

text \<open>
  C3, as the code has it. \<open>POST /auth/login\<close> for a name no document has ends with
  \<open>HTTPException\<close> 401 and the detail \<open>Invalid name or password\<close>. For a name that is
  found, it ends with the same error when \<open>verify\<close> answers \<open>False\<close> for the password.
  When \<open>verify\<close> raises instead, nothing catches the exception: the handler ends with it
  and not with the 401.
\<close>

theorem login_failures_indistinguishable:
  assumes "find_one db1 ''account'' (Eq ''name'' (strip py (LoginPayload.name lp1))) = Inr None"
    and "find_one db2 ''account'' (Eq ''name'' (strip py (LoginPayload.name lp2))) = Inr (Some d)"
  shows "outcome (login py ctx (Some db1) lp1) = Inl (HTTPException 401 ''Invalid name or password'')
     \<and> (verify ctx (LoginPayload.password lp2) (get_default d ''password_hash'' (VStr [])) = Inr False
          \<longrightarrow> outcome (login py ctx (Some db2) lp2)
                = Inl (HTTPException 401 ''Invalid name or password'')
            \<and> outcome (login py ctx (Some db2) lp2) = outcome (login py ctx (Some db1) lp1))
     \<and> (\<forall>e. verify ctx (LoginPayload.password lp2) (get_default d ''password_hash'' (VStr [])) = Inl e
          \<longrightarrow> outcome (login py ctx (Some db2) lp2) = Inl (Uncaught e)
            \<and> outcome (login py ctx (Some db2) lp2) \<noteq> outcome (login py ctx (Some db1) lp1))"
  unfolding login_not_found[OF assms(1)] login_found[OF assms(2)]
  by (auto simp: outcome_def)

theorem login_failures_indistinguishable_witness:
  "outcome (login ascii_str toy_context (Some alice_db)
              \<lparr>LoginPayload.name = ''bob'', LoginPayload.password = ''secret123''\<rparr>)
     = Inl (HTTPException 401 ''Invalid name or password'')
   \<and> outcome (login ascii_str toy_context (Some alice_db)
              \<lparr>LoginPayload.name = ''alice'', LoginPayload.password = ''wrong''\<rparr>)
     = Inl (HTTPException 401 ''Invalid name or password'')
   \<and> outcome (login ascii_str toy_context (Some alice_db)
              \<lparr>LoginPayload.name = ''alice'', LoginPayload.password = [CHR 0x00]\<rparr>)
     = Inl (Uncaught (Exception ''NULL bytes are not allowed''))"
proof -
  have u: "find_one alice_db ''account''
      (Eq ''name'' (strip ascii_str (LoginPayload.name
         \<lparr>LoginPayload.name = ''bob'', LoginPayload.password = ''secret123''\<rparr>))) = Inr None"
    by (simp add: find_one_def alice_db_def empty_db_def alice_doc_def strip_bob)
  have f: "find_one alice_db ''account''
      (Eq ''name'' (strip ascii_str (LoginPayload.name
         \<lparr>LoginPayload.name = ''alice'', LoginPayload.password = pw\<rparr>))) = Inr (Some alice_doc)"
    for pw
    by (simp add: find_one_def alice_db_def empty_db_def alice_doc_def strip_alice)
  have wrong: "verify toy_context ''wrong'' (get_default alice_doc ''password_hash'' (VStr [])) = Inr False"
    by (simp add: toy_context_def alice_doc_def get_default_def)
  have nul: "verify toy_context [CHR 0x00] (get_default alice_doc ''password_hash'' (VStr []))
      = Inl (Exception ''NULL bytes are not allowed'')"
    by (simp add: toy_context_def alice_doc_def get_default_def)
  from login_failures_indistinguishable[OF u f, of toy_context "''wrong''"] wrong
       login_failures_indistinguishable[OF u f, of toy_context "[CHR 0x00]"] nul
  show ?thesis by simp
qed

text \<open>
  C3 as stated covers every wrong password. The password of one NUL byte is wrong for
  alice, and the context refuses it as passlib's bcrypt does: for the unknown name bob
  the answer is the 401, for alice it is the uncaught exception.
\<close>

theorem login_raising_verify_counterexample:
  "outcome (login ascii_str toy_context (Some alice_db)
              \<lparr>LoginPayload.name = ''bob'', LoginPayload.password = [CHR 0x00]\<rparr>)
     = Inl (HTTPException 401 ''Invalid name or password'')
   \<and> outcome (login ascii_str toy_context (Some alice_db)
              \<lparr>LoginPayload.name = ''alice'', LoginPayload.password = [CHR 0x00]\<rparr>)
     = Inl (Uncaught (Exception ''NULL bytes are not allowed''))
   \<and> outcome (login ascii_str toy_context (Some alice_db)
              \<lparr>LoginPayload.name = ''alice'', LoginPayload.password = [CHR 0x00]\<rparr>)
     \<noteq> outcome (login ascii_str toy_context (Some alice_db)
              \<lparr>LoginPayload.name = ''bob'', LoginPayload.password = [CHR 0x00]\<rparr>)"
  by (simp add: outcome_def login_def find_one_def alice_db_def empty_db_def alice_doc_def
      strip_bob strip_alice truthy_def toy_context_def get_default_def Let_def)

text \<open>
  C9. When the document login finds has no \<open>password_hash\<close>, login does not take the
  branch of the unknown name: it calls \<open>verify\<close> with the password and the empty string.
  It answers 401 \<open>Invalid name or password\<close> exactly when that call returns \<open>False\<close>;
  when the call raises, the exception leaves the handler uncaught.
\<close>

theorem login_without_stored_hash:
  assumes "find_one db ''account'' (Eq ''name'' (strip py (LoginPayload.name lp))) = Inr (Some d)"
    and "map_of d ''password_hash'' = None"
  shows "events (login py ctx (Some db) lp)
       = [FindOne ''account'' (Eq ''name'' (strip py (LoginPayload.name lp))),
          Verify (LoginPayload.password lp) (VStr [])]
     \<and> (outcome (login py ctx (Some db) lp) = Inl (HTTPException 401 ''Invalid name or password'')
        \<longleftrightarrow> verify ctx (LoginPayload.password lp) (VStr []) = Inr False)
     \<and> (\<forall>e. verify ctx (LoginPayload.password lp) (VStr []) = Inl e
          \<longrightarrow> outcome (login py ctx (Some db) lp) = Inl (Uncaught e))
     \<and> (verify ctx (LoginPayload.password lp) (VStr []) = Inr True
          \<longrightarrow> (\<exists>r. outcome (login py ctx (Some db) lp) = Inr r))"
  unfolding login_found[OF assms(1)]
  using assms(2)
  by (auto simp: get_default_def outcome_def events_def split: sum.splits)

theorem login_without_stored_hash_witness:
  "find_one legacy_db ''account'' (Eq ''name'' ''carol'')
     = Inr (Some [(''_id'', VObjectId ''77c3''), (''name'', VStr ''carol'')])
   \<and> events (login ascii_str toy_context (Some legacy_db)
              \<lparr>LoginPayload.name = '' carol'', LoginPayload.password = ''pw''\<rparr>)
     = [FindOne ''account'' (Eq ''name'' ''carol''), Verify ''pw'' (VStr [])]
   \<and> outcome (login ascii_str toy_context (Some legacy_db)
              \<lparr>LoginPayload.name = '' carol'', LoginPayload.password = ''pw''\<rparr>)
     = Inl (Uncaught (Exception ''hash could not be identified''))"
proof -
  note s = strip_carol
  have f: "find_one legacy_db ''account''
      (Eq ''name'' (strip ascii_str (LoginPayload.name
         \<lparr>LoginPayload.name = '' carol'', LoginPayload.password = ''pw''\<rparr>)))
     = Inr (Some [(''_id'', VObjectId ''77c3''), (''name'', VStr ''carol'')])"
    by (simp add: s find_one_def legacy_db_def empty_db_def)
  have v: "verify toy_context ''pw'' (VStr []) = Inl (Exception ''hash could not be identified'')"
    by (simp add: toy_context_def)
  from login_without_stored_hash[OF f, of toy_context] f v s show ?thesis by simp
qed

end
